theory Spec2Isabelle
  imports Complex_Main
begin

section \<open>Dictionary indexing of EBSD patterns: the chunked matching pipeline\<close>

text \<open>
  This theory embeds \<^verbatim>\<open>kikuchipy/indexing/_dictionary_indexing.py\<close>: the driver
  \<^verbatim>\<open>_dictionary_indexing\<close> and the chunk matcher \<^verbatim>\<open>_match_chunk\<close>.

  Conventions of the embedding.
  \<^item> Python integers are \<open>int\<close>; \<open>//\<close> is floor division and raises on a zero divisor.
  \<^item> A similarity score is a \<open>real\<close>. The driver and the chunk matcher never compute
    with scores: they compare them, negate them for the sort and move them between
    arrays, and the initial value of the running scores is \<open>+1\<close> or \<open>-1\<close>.
  \<^item> A two-dimensional array is a list of rows. Operations along \<open>axis=1\<close> map over
    the rows.
  \<^item> Every Python exception the modelled lines can raise is a value of type \<open>error\<close>;
    a fallible function returns \<open>error + 'a\<close> with \<open>Inl\<close> for the exception.
\<close>

subsection \<open>Exceptions\<close>

text \<open>
  \<open>ZeroDivisionError\<close>, \<open>ValueError\<close> and \<open>IndexError\<close> are the built-in exceptions
  raised by the modelled lines. \<open>ConfigurationError\<close> is the error class named by the
  specification; no line of the source raises it.
\<close>

datatype error = ConfigurationError | ZeroDivisionError | ValueError | IndexError

definition py_floordiv :: "int \<Rightarrow> int \<Rightarrow> error + int" where
  \<comment> \<open>Python's \<open>a // b\<close> on integers.\<close>
  "py_floordiv a b = (if b = 0 then Inl ZeroDivisionError else Inr (a div b))"

subsection \<open>Array primitives of numpy and dask\<close>

text \<open>
  These functions belong to numpy and dask, not to the repository. They are modelled
  from their documented behaviour.

  The libraries do not fix the order in which equal keys are returned: \<open>np.argsort\<close>
  with the default kind is not a stable sort. The model has to return one order and
  takes, for \<open>argsort\<close>, equal keys in the order of their positions; it is one of the
  admissible results, and on a row without equal keys it is the only one (lemma
  \<open>argsort_unique\<close> below). For \<open>argtopk\<close> with a positive \<open>k\<close> the ascending order is
  reversed, so of equal values the later position comes first.
\<close>

fun cumsum_from :: "int \<Rightarrow> int list \<Rightarrow> int list" where
  "cumsum_from acc [] = []"
| "cumsum_from acc (x # xs) = (acc + x) # cumsum_from (acc + x) xs"

definition cumsum :: "int list \<Rightarrow> int list" where
  \<comment> \<open>\<open>np.cumsum\<close> of a list of integers.\<close>
  "cumsum xs = cumsum_from 0 xs"

definition argsort :: "real list \<Rightarrow> nat list" where
  \<comment> \<open>\<open>np.argsort\<close> along a row: the positions in ascending order of their key; equal
      keys in the order of their positions (one admissible order, see above).\<close>
  "argsort keys = map snd (sort_key fst (zip keys [0..<length keys]))"

definition take_along_axis :: "'a list \<Rightarrow> nat list \<Rightarrow> 'a list" where
  \<comment> \<open>\<open>np.take_along_axis\<close> along a row; the positions come from \<open>argsort\<close> and are in range.\<close>
  "take_along_axis row idx = map (\<lambda>i. row ! i) idx"

definition argtopk :: "int \<Rightarrow> real list \<Rightarrow> nat list" where
  \<comment> \<open>\<open>dask.array.argtopk\<close>: for \<open>k \<ge> 0\<close> the positions of the \<open>k\<close> largest values, largest
      first (the ascending order reversed); for \<open>k < 0\<close> the positions of the \<open>-k\<close> smallest
      values, smallest first. A row with fewer than \<open>|k|\<close> entries is returned whole.\<close>
  "argtopk k row =
     (if 0 \<le> k then take (nat k) (rev (argsort row))
      else take (nat (- k)) (argsort row))"

definition topk :: "int \<Rightarrow> real list \<Rightarrow> real list" where
  \<comment> \<open>\<open>dask.array.topk\<close>: the values at the positions \<open>argtopk\<close> returns.\<close>
  "topk k row = take_along_axis row (argtopk k row)"

definition hstack :: "'a list list \<Rightarrow> 'a list list \<Rightarrow> error + 'a list list" where
  \<comment> \<open>\<open>np.hstack\<close> of two matrices: the row counts must agree.\<close>
  "hstack a b = (if length a = length b then Inr (map2 (@) a b) else Inl ValueError)"

definition reshape_cols :: "int \<Rightarrow> 'a list list \<Rightarrow> error + 'a list list" where
  \<comment> \<open>\<open>a.reshape((-1, k))\<close> of the lazy array that \<open>topk\<close> or \<open>argtopk\<close> returned for the
      same \<open>k\<close>. Its declared shape is \<open>(n, |k|)\<close> whatever the data, so for a positive
      \<open>k\<close> the requested shape is the declared one and the array is returned as it is.
      For \<open>k = 0\<close> the unknown dimension is computed by a division by zero. A negative
      \<open>k\<close> is rejected.\<close>
  "reshape_cols k rows =
     (if k = 0 then Inl ZeroDivisionError
      else if k < 0 then Inl ValueError
      else Inr rows)"

definition reshape_dictionary :: "'d list \<Rightarrow> error + 'd list" where
  \<comment> \<open>\<^verbatim>\<open>dictionary.reshape((dictionary.shape[0], -1))\<close> of an in-memory array: every
      pattern becomes one row. With no pattern at all the unknown dimension cannot be
      computed and numpy raises \<open>ValueError\<close>.\<close>
  "reshape_dictionary dictionary = (if dictionary = [] then Inl ValueError else Inr dictionary)"

definition zeros :: "nat \<Rightarrow> int \<Rightarrow> error + int list list" where
  \<comment> \<open>\<open>np.zeros((n, k), dtype=np.int32)\<close>: a negative dimension is rejected.\<close>
  "zeros n k = (if k < 0 then Inl ValueError else Inr (replicate n (replicate (nat k) 0)))"

definition full :: "nat \<Rightarrow> int \<Rightarrow> real \<Rightarrow> error + real list list" where
  \<comment> \<open>\<open>np.full((n, k), v)\<close>.\<close>
  "full n k v = (if k < 0 then Inl ValueError else Inr (replicate n (replicate (nat k) v)))"

definition slice_rows :: "'a list \<Rightarrow> int \<Rightarrow> int \<Rightarrow> 'a list" where
  \<comment> \<open>\<open>a[start:end]\<close> for non-negative bounds, as the chunk loop produces them.\<close>
  "slice_rows a start end = drop (nat start) (take (nat end) a)"

subsection \<open>Chunk boundaries\<close>

definition chunk_starts :: "int \<Rightarrow> int \<Rightarrow> int list" where
  \<comment> \<open>\<^verbatim>\<open>np.cumsum([0] + [n_per_iteration] * (n_iterations - 1))\<close>\<close>
  "chunk_starts n_per_iteration n_iterations =
     cumsum (0 # replicate (nat (n_iterations - 1)) n_per_iteration)"

definition chunk_ends :: "int \<Rightarrow> int \<Rightarrow> int list" where
  \<comment> \<open>\<^verbatim>\<open>np.cumsum([n_per_iteration] * n_iterations)\<close>\<close>
  "chunk_ends n_per_iteration n_iterations =
     cumsum (replicate (nat n_iterations) n_per_iteration)"

definition extend_last_end :: "int list \<Rightarrow> int \<Rightarrow> error + int list" where
  \<comment> \<open>\<^verbatim>\<open>chunk_ends[-1] = max(chunk_ends[-1], dictionary_size)\<close>: reading the last entry
      of an empty array raises.\<close>
  "extend_last_end ends dictionary_size =
     (if ends = [] then Inl IndexError
      else Inr (ends[length ends - 1 := max (last ends) dictionary_size]))"

definition chunk_bounds :: "int \<Rightarrow> int \<Rightarrow> int \<Rightarrow> error + (int \<times> int) list" where
  \<comment> \<open>The pairs \<open>(start, end)\<close> the loop of the multi-chunk path runs over.\<close>
  "chunk_bounds n_per_iteration n_iterations dictionary_size =
     (case extend_last_end (chunk_ends n_per_iteration n_iterations) dictionary_size of
        Inl e \<Rightarrow> Inl e
      | Inr ends \<Rightarrow> Inr (zip (chunk_starts n_per_iteration n_iterations) ends))"

subsection \<open>The similarity metric\<close>

text \<open>
  The class \<^verbatim>\<open>SimilarityMetric\<close> is not among the source files. The driver and the
  chunk matcher use its attribute \<^verbatim>\<open>sign\<close> (\<open>+1\<close> when a greater score is better,
  \<open>-1\<close> when a lower one is) and its methods \<^verbatim>\<open>prepare_experimental\<close>,
  \<^verbatim>\<open>prepare_dictionary\<close> and \<^verbatim>\<open>match\<close>; they are the fields of a record, so
  a metric is a parameter of everything below. \<^verbatim>\<open>match\<close> returns the matrix of
  similarities, one row per experimental pattern and one column per dictionary pattern
  of the chunk.
\<close>

record ('e, 'pe, 'd, 'pd) similarity_metric =
  sign :: int
  prepare_experimental :: "'e \<Rightarrow> 'pe"
  prepare_dictionary :: "'d list \<Rightarrow> 'pd list"
  match :: "'pe \<Rightarrow> 'pd list \<Rightarrow> real list list"

subsection \<open>The chunk matcher\<close>

definition match_chunk ::
  "'pe \<Rightarrow> 'd list \<Rightarrow> int \<Rightarrow> ('e, 'pe, 'd, 'pd) similarity_metric
     \<Rightarrow> error + (nat list list \<times> real list list)" where
  "match_chunk experimental simulated keep_n metric =
     (let simulated = prepare_dictionary metric simulated;
          similarities = match metric experimental simulated;
          simulation_indices = map (argtopk keep_n) similarities;
          scores = map (topk keep_n) similarities
      in case reshape_cols keep_n simulation_indices of
           Inl e \<Rightarrow> Inl e
         | Inr simulation_indices \<Rightarrow>
             (case reshape_cols keep_n scores of
                Inl e \<Rightarrow> Inl e
              | Inr scores \<Rightarrow> Inr (simulation_indices, scores)))"

subsection \<open>The driver\<close>

text \<open>
  The driver returns a pair: the list of the chunks \<open>(start, end)\<close> that were handed to
  \<open>match_chunk\<close>, in order, and the outcome. The first component records how far the
  run went before an exception.

  The dictionary is an in-memory array, one of the two kinds the signature admits;
  for it the \<^verbatim>\<open>compute\<close> of a slice is the slice itself. The crystal map of the
  dictionary (phase name, rotations), the coordinate arrays, the print of the
  information message and the lookup of the rotations by \<open>simulation_indices\<close> are not
  modelled: the outcome is the content of the two properties \<^verbatim>\<open>scores\<close> and
  \<^verbatim>\<open>simulation_indices\<close> of the crystal map. The running index arrays hold
  integers below the dictionary size; the fixed width of their element type is not
  modelled.
\<close>

record xmap_prop =
  prop_simulation_indices :: "int list list"
  prop_scores :: "real list list"

definition merge_chunk ::
  "int \<Rightarrow> int \<Rightarrow> int \<Rightarrow> int list list \<times> real list list
     \<Rightarrow> nat list list \<times> real list list \<Rightarrow> error + (int list list \<times> real list list)" where
  \<comment> \<open>One pass through the body of the loop after \<open>match_chunk\<close> has returned:
      the offset of the indices, the two \<open>hstack\<close>s, \<open>argsort\<close> and \<open>take_along_axis\<close>.\<close>
  "merge_chunk negative_sign keep_n start running chunk =
     (let (simulation_indices, scores) = running;
          (simulation_indices_i, scores_i) = chunk;
          simulation_indices_i = map (map (\<lambda>i. int i + start)) simulation_indices_i
      in case hstack scores scores_i of
           Inl e \<Rightarrow> Inl e
         | Inr all_scores \<Rightarrow>
             (case hstack simulation_indices simulation_indices_i of
                Inl e \<Rightarrow> Inl e
              | Inr all_simulation_indices \<Rightarrow>
                  (let best_indices =
                         map (\<lambda>row. take (nat keep_n)
                                (argsort (map (\<lambda>s. real_of_int negative_sign * s) row)))
                           all_scores
                   in Inr (map2 take_along_axis all_simulation_indices best_indices,
                           map2 take_along_axis all_scores best_indices))))"

fun chunk_loop ::
  "('e, 'pe, 'd, 'pd) similarity_metric \<Rightarrow> 'pe \<Rightarrow> 'd list \<Rightarrow> int \<Rightarrow> (int \<times> int) list
     \<Rightarrow> int list list \<times> real list list
     \<Rightarrow> (int \<times> int) list \<times> (error + (int list list \<times> real list list))" where
  "chunk_loop metric experimental dictionary keep_n [] running = ([], Inr running)"
| "chunk_loop metric experimental dictionary keep_n ((start, end) # rest) running =
     (let simulated = slice_rows dictionary start end
      in case match_chunk experimental simulated (min keep_n (end - start)) metric of
           Inl e \<Rightarrow> ([(start, end)], Inl e)
         | Inr chunk \<Rightarrow>
             (case merge_chunk (- sign metric) keep_n start running chunk of
                Inl e \<Rightarrow> ([(start, end)], Inl e)
              | Inr running' \<Rightarrow>
                  (let (matched, outcome) =
                         chunk_loop metric experimental dictionary keep_n rest running'
                   in ((start, end) # matched, outcome))))"

definition single_pass_path ::
  "'pe \<Rightarrow> 'd list \<Rightarrow> ('e, 'pe, 'd, 'pd) similarity_metric \<Rightarrow> int
     \<Rightarrow> (int \<times> int) list \<times> (error + (int list list \<times> real list list))" where
  \<comment> \<open>The branch \<^verbatim>\<open>if dictionary_size == n_per_iteration\<close>.\<close>
  "single_pass_path experimental dictionary metric keep_n =
     ([(0, int (length dictionary))],
      case match_chunk experimental dictionary keep_n metric of
        Inl e \<Rightarrow> Inl e
      | Inr (simulation_indices, scores) \<Rightarrow> Inr (map (map int) simulation_indices, scores))"

definition multi_chunk_path ::
  "'pe \<Rightarrow> nat \<Rightarrow> 'd list \<Rightarrow> ('e, 'pe, 'd, 'pd) similarity_metric \<Rightarrow> int \<Rightarrow> int \<Rightarrow> int
     \<Rightarrow> (int \<times> int) list \<times> (error + (int list list \<times> real list list))" where
  \<comment> \<open>The \<^verbatim>\<open>else\<close> branch, with \<open>n_iterations\<close> as a parameter.\<close>
  "multi_chunk_path experimental n_experimental dictionary metric keep_n n_per_iteration
       n_iterations =
     (let dictionary_size = int (length dictionary)
      in case zeros n_experimental keep_n of
           Inl e \<Rightarrow> ([], Inl e)
         | Inr simulation_indices \<Rightarrow>
             (case full n_experimental keep_n (real_of_int (sign metric)) of
                Inl e \<Rightarrow> ([], Inl e)
              | Inr scores \<Rightarrow>
                  (case chunk_bounds n_per_iteration n_iterations dictionary_size of
                     Inl e \<Rightarrow> ([], Inl e)
                   | Inr bounds \<Rightarrow>
                       chunk_loop metric experimental dictionary keep_n bounds
                         (simulation_indices, scores))))"

definition to_xmap_prop :: "error + (int list list \<times> real list list) \<Rightarrow> error + xmap_prop" where
  "to_xmap_prop outcome =
     (case outcome of
        Inl e \<Rightarrow> Inl e
      | Inr (simulation_indices, scores) \<Rightarrow>
          Inr \<lparr>prop_simulation_indices = simulation_indices, prop_scores = scores\<rparr>)"

definition dictionary_indexing ::
  "'e \<Rightarrow> nat list \<Rightarrow> 'd list \<Rightarrow> ('e, 'pe, 'd, 'pd) similarity_metric \<Rightarrow> int \<Rightarrow> int
     \<Rightarrow> (int \<times> int) list \<times> (error + xmap_prop)" where
  "dictionary_indexing experimental experimental_nav_shape dictionary metric keep_n
       n_per_iteration =
     (let dictionary_size = int (length dictionary);
          n_experimental = prod_list experimental_nav_shape;
          keep_n = min keep_n dictionary_size
      in case py_floordiv dictionary_size n_per_iteration of
           Inl e \<Rightarrow> ([], Inl e)
         | Inr n_iterations \<Rightarrow>
             (let experimental = prepare_experimental metric experimental
              in case reshape_dictionary dictionary of
                   Inl e \<Rightarrow> ([], Inl e)
                 | Inr dictionary \<Rightarrow>
                     (let (matched, outcome) =
                            (if dictionary_size = n_per_iteration
                             then single_pass_path experimental dictionary metric keep_n
                             else multi_chunk_path experimental n_experimental dictionary
                                    metric keep_n n_per_iteration n_iterations)
                      in (matched, to_xmap_prop outcome))))"

subsection \<open>A concrete family of metrics\<close>

text \<open>
  A metric that compares pattern by pattern: no preparation, and the similarity of
  an experimental and a dictionary pattern is \<open>f\<close> of the two. With \<open>f = dot\<close> and
  sign \<open>+1\<close> the scores of patterns of unit norm are those of a normalized dot
  product: the sum of the products over the pixel axis.
\<close>

definition dot :: "real list \<Rightarrow> real list \<Rightarrow> real" where
  "dot a b = sum_list (map2 (*) a b)"

definition pairwise_metric ::
  "int \<Rightarrow> (real list \<Rightarrow> real list \<Rightarrow> real)
     \<Rightarrow> (real list list, real list list, real list, real list) similarity_metric" where
  "pairwise_metric s f =
     \<lparr>sign = s, prepare_experimental = (\<lambda>patterns. patterns),
      prepare_dictionary = (\<lambda>patterns. patterns),
      match = (\<lambda>experimental simulated. map (\<lambda>e. map (f e) simulated) experimental)\<rparr>"

subsection \<open>Auxiliary definitions for the statements\<close>

text \<open>
  The first \<open>m\<close> chunks of \<open>n\<close> rows each, as pairs \<open>(start, end)\<close>.
\<close>

definition regular_bounds :: "int \<Rightarrow> nat \<Rightarrow> (int \<times> int) list" where
  "regular_bounds n m = map (\<lambda>i. (int i * n, (int i + 1) * n)) [0..<m]"

text \<open>
  A metric for which a lower score is better: the squared Euclidean distance of two
  patterns, used with sign \<open>-1\<close>.
\<close>

definition sq_dist :: "real list \<Rightarrow> real list \<Rightarrow> real" where
  "sq_dist a b = sum_list (map2 (\<lambda>x y. (x - y) * (x - y)) a b)"

text \<open>
  A row of scores is sorted best first: non-increasing when the sign of the metric
  is \<open>+1\<close>, non-decreasing otherwise.
\<close>

definition sorted_best_first :: "int \<Rightarrow> real list \<Rightarrow> bool" where
  "sorted_best_first s row = (if s = 1 then sorted (rev row) else sorted row)"

section \<open>Verified properties\<close>

subsection \<open>Chunk boundaries\<close>

lemma length_cumsum_from: "length (cumsum_from a xs) = length xs"
  by (induction xs arbitrary: a) simp_all

lemma nth_cumsum_from_replicate:
  "i < k \<Longrightarrow> cumsum_from a (replicate k n) ! i = a + (int i + 1) * n"
proof (induction k arbitrary: a i)
  case 0
  then show ?case by simp
next
  case (Suc k)
  show ?case
  proof (cases i)
    case 0
    then show ?thesis by simp
  next
    case (Suc j)
    with Suc.prems have "j < k" by simp
    from Suc.IH [OF this, of "a + n"] Suc show ?thesis
      by (simp add: algebra_simps)
  qed
qed

lemma length_chunk_ends: "length (chunk_ends n k) = nat k"
  by (simp add: chunk_ends_def cumsum_def length_cumsum_from)

lemma nth_chunk_ends: "i < nat k \<Longrightarrow> chunk_ends n k ! i = (int i + 1) * n"
  by (simp add: chunk_ends_def cumsum_def nth_cumsum_from_replicate)

lemma length_chunk_starts: "length (chunk_starts n k) = Suc (nat (k - 1))"
  by (simp add: chunk_starts_def cumsum_def length_cumsum_from)

lemma nth_chunk_starts: "i \<le> nat (k - 1) \<Longrightarrow> chunk_starts n k ! i = int i * n"
proof (cases i)
  case 0
  then show ?thesis by (simp add: chunk_starts_def cumsum_def)
next
  case (Suc j)
  assume "i \<le> nat (k - 1)"
  with Suc have "j < nat (k - 1)" by simp
  then show ?thesis using Suc
    by (simp add: chunk_starts_def cumsum_def nth_cumsum_from_replicate algebra_simps)
qed

lemma chunk_bounds_eq:
  assumes "1 \<le> k"
  shows "chunk_bounds n k d =
    Inr (regular_bounds n (nat k - 1) @ [((k - 1) * n, max (k * n) d)])"
proof -
  let ?K = "nat k"
  have K: "0 < ?K" using assms by simp
  have ne: "chunk_ends n k \<noteq> []"
    using length_chunk_ends [of n k] K by auto
  have last: "last (chunk_ends n k) = k * n"
    using ne K assms by (simp add: last_conv_nth length_chunk_ends nth_chunk_ends)
  have "zip (chunk_starts n k) ((chunk_ends n k)[length (chunk_ends n k) - 1 := max (k * n) d])
      = regular_bounds n (?K - 1) @ [((k - 1) * n, max (k * n) d)]"
  proof (rule nth_equalityI)
    show "length (zip (chunk_starts n k) ((chunk_ends n k)[length (chunk_ends n k) - 1 := max (k * n) d]))
      = length (regular_bounds n (?K - 1) @ [((k - 1) * n, max (k * n) d)])"
      using K assms by (simp add: length_chunk_ends length_chunk_starts regular_bounds_def)
  next
    fix i
    assume "i < length (zip (chunk_starts n k) ((chunk_ends n k)[length (chunk_ends n k) - 1 := max (k * n) d]))"
    then have i: "i < ?K" by (simp add: length_chunk_ends)
    then have i': "i \<le> nat (k - 1)" by simp
    show "zip (chunk_starts n k) ((chunk_ends n k)[length (chunk_ends n k) - 1 := max (k * n) d]) ! i
      = (regular_bounds n (?K - 1) @ [((k - 1) * n, max (k * n) d)]) ! i"
    proof (cases "i = ?K - 1")
      case True
      then have "int i = k - 1" using assms by simp
      with True i i' show ?thesis
        by (simp add: length_chunk_ends length_chunk_starts nth_chunk_starts nth_append
            regular_bounds_def)
    next
      case False
      with i have "i < ?K - 1" by simp
      with False i i' show ?thesis
        by (simp add: length_chunk_ends length_chunk_starts nth_chunk_starts nth_chunk_ends
            nth_append regular_bounds_def)
    qed
  qed
  with ne last show ?thesis
    by (simp add: chunk_bounds_def extend_last_end_def)
qed

lemma concat_regular_bounds:
  "0 < n \<Longrightarrow> concat (map (\<lambda>(s, e). [s..e - 1]) (regular_bounds n m)) = [0..int m * n - 1]"
proof (induction m)
  case 0
  then show ?case by (simp add: regular_bounds_def)
next
  case (Suc m)
  have le: "0 \<le> int m * n" using Suc.prems by simp
  have "[0..int (Suc m) * n - 1] = [0..int m * n - 1] @ [int m * n..int (Suc m) * n - 1]"
    using Suc.prems le by (intro upto_split1) (simp_all add: algebra_simps)
  with Suc show ?case
    by (simp add: regular_bounds_def algebra_simps)
qed


lemma regular_bounds_props:
  assumes "0 < n" and "(s, e) \<in> set (regular_bounds n m)"
  shows "s < e" and "e - s = n"
  using assms by (auto simp: regular_bounds_def algebra_simps)

text \<open>
  Claim C3. For a dictionary of 23 rows and 10 rows per iteration the driver computes
  2 iterations and the chunks \<open>[0,10)\<close> and \<open>[10,23)\<close>. In general, when the number
  of rows per iteration is positive and at most the dictionary size, the division
  succeeds with at least one iteration, the chunks are non-empty, every chunk but the
  last has exactly \<open>n\<close> rows, the last one ends at the dictionary size, and the rows
  of the chunks, listed chunk after chunk, are exactly the rows \<open>0, ..., d - 1\<close> of the
  dictionary, each once and in order.
\<close>

theorem chunk_bounds_cover:
  "py_floordiv 23 10 = Inr 2 \<and> chunk_bounds 10 2 23 = Inr [(0, 10), (10, 23)] \<and>
   (0 < n \<and> n \<le> d \<longrightarrow>
     (\<exists>k bs. py_floordiv d n = Inr k \<and> chunk_bounds n k d = Inr bs \<and>
        length bs = nat k \<and> 1 \<le> k \<and>
        concat (map (\<lambda>(s, e). [s..e - 1]) bs) = [0..d - 1] \<and>
        (\<forall>(s, e) \<in> set bs. s < e) \<and>
        (\<forall>(s, e) \<in> set (butlast bs). e - s = n) \<and>
        snd (last bs) = d))"
proof (intro conjI impI)
  show "py_floordiv 23 10 = Inr 2"
    by (simp add: py_floordiv_def)
  show "chunk_bounds 10 2 23 = Inr [(0, 10), (10, 23)]"
    using chunk_bounds_eq [of 2 10 23] by (simp add: regular_bounds_def)
next
  assume "0 < n \<and> n \<le> d"
  then have n: "0 < n" and nd: "n \<le> d" by simp_all
  define k where "k = d div n"
  have k1: "1 \<le> k"
    using n nd unfolding k_def by (simp add: pos_imp_zdiv_pos_iff int_one_le_iff_zero_less)
  have kn: "k * n \<le> d"
    using n unfolding k_def by (metis div_mult_mod_eq le_add_same_cancel1 pos_mod_sign)
  define bs where "bs = regular_bounds n (nat k - 1) @ [((k - 1) * n, d)]"
  have cb: "chunk_bounds n k d = Inr bs"
    using chunk_bounds_eq [OF k1, of n d] kn by (simp add: bs_def max_def)
  have lo: "(k - 1) * n < d"
  proof -
    have "(k - 1) * n = k * n - n" by (simp add: algebra_simps)
    with kn n show ?thesis by simp
  qed
  have ge: "0 \<le> (k - 1) * n" using k1 n by simp
  have int_eq: "int (nat k - Suc 0) = k - 1" using k1 by simp
  have cover: "concat (map (\<lambda>(s, e). [s..e - 1]) bs) = [0..d - 1]"
  proof -
    have "[0..d - 1] = [0..(k - 1) * n - 1] @ [(k - 1) * n..d - 1]"
      using ge lo by (intro upto_split1) simp_all
    then show ?thesis
      using concat_regular_bounds [OF n, of "nat k - 1"] by (simp add: bs_def int_eq)
  qed
  have pos: "\<forall>(s, e) \<in> set bs. s < e"
    using regular_bounds_props(1) [OF n] lo by (auto simp: bs_def)
  have sz: "\<forall>(s, e) \<in> set (butlast bs). e - s = n"
    using regular_bounds_props(2) [OF n] by (auto simp: bs_def)
  have len: "length bs = nat k"
    using k1 by (simp add: bs_def regular_bounds_def)
  have "py_floordiv d n = Inr k"
    using n by (simp add: py_floordiv_def k_def)
  with cb len k1 cover pos sz
  show "\<exists>k bs. py_floordiv d n = Inr k \<and> chunk_bounds n k d = Inr bs \<and>
        length bs = nat k \<and> 1 \<le> k \<and>
        concat (map (\<lambda>(s, e). [s..e - 1]) bs) = [0..d - 1] \<and>
        (\<forall>(s, e) \<in> set bs. s < e) \<and>
        (\<forall>(s, e) \<in> set (butlast bs). e - s = n) \<and>
        snd (last bs) = d"
    by (intro exI [of _ k] exI [of _ bs]) (simp add: bs_def)
qed

theorem chunk_bounds_cover_witness:
  "(0::int) < 3 \<and> (3::int) \<le> 7 \<and>
     (\<exists>k bs. py_floordiv 7 3 = Inr k \<and> chunk_bounds 3 k 7 = Inr bs \<and>
        length bs = nat k \<and> 1 \<le> k \<and>
        concat (map (\<lambda>(s, e). [s..e - 1]) bs) = [0..7 - 1] \<and>
        (\<forall>(s, e) \<in> set bs. s < e) \<and>
        (\<forall>(s, e) \<in> set (butlast bs). e - s = 3) \<and>
        snd (last bs) = 7)"
  using chunk_bounds_cover [of 3 7] by simp

subsection \<open>Exceptions of the driver\<close>



lemma chunk_ends_no_iterations: "n_iterations \<le> 0 \<Longrightarrow> chunk_ends n n_iterations = []"
  by (simp add: chunk_ends_def cumsum_def)

lemma multi_chunk_path_no_iterations:
  assumes "n_iterations \<le> 0"
  shows "multi_chunk_path experimental n_experimental dictionary metric keep_n n n_iterations =
    ([], Inl (if keep_n < 0 then ValueError else IndexError))"
  using assms
  by (simp add: multi_chunk_path_def zeros_def full_def chunk_bounds_def extend_last_end_def
      chunk_ends_no_iterations)







lemma dictionary_indexing_multi:
  assumes "n \<noteq> 0" and "int (length dictionary) \<noteq> n" and "dictionary \<noteq> []"
  shows "dictionary_indexing experimental shape dictionary metric keep_n n =
    (let (matched, outcome) =
       multi_chunk_path (prepare_experimental metric experimental) (prod_list shape) dictionary
         metric (min keep_n (int (length dictionary))) n (int (length dictionary) div n)
     in (matched, to_xmap_prop outcome))"
  using assms
  by (simp add: dictionary_indexing_def py_floordiv_def reshape_dictionary_def Let_def)


lemma dictionary_indexing_too_large:
  assumes "0 < int (length dictionary)" and "int (length dictionary) < n"
  shows "dictionary_indexing experimental shape dictionary metric keep_n n =
    ([], Inl (if keep_n < 0 then ValueError else IndexError))"
proof -
  have "int (length dictionary) div n = 0"
    using assms by (simp add: div_pos_pos_trivial)
  moreover have "dictionary \<noteq> []" using assms by auto
  ultimately show ?thesis
    using assms
    by (simp add: dictionary_indexing_multi multi_chunk_path_no_iterations to_xmap_prop_def min_def)
qed







text \<open>
  Claim C10, as amended. When the dictionary is not empty and has fewer rows than
  \<open>n_per_iteration\<close>, the number of iterations is 0, \<open>chunk_ends\<close> is empty and reading
  its last entry raises \<open>IndexError\<close>; the run ends with that error before any chunk
  is matched, unless \<open>keep_n\<close> is negative, in which case the allocation of the running
  buffers has already raised \<open>ValueError\<close>. The number of rows per iteration is never
  lowered to the dictionary size.
\<close>

theorem too_few_rows_raises:
  "0 < int (length dictionary) \<and> int (length dictionary) < n \<longrightarrow>
     py_floordiv (int (length dictionary)) n = Inr 0 \<and>
     chunk_ends n 0 = [] \<and>
     extend_last_end (chunk_ends n 0) (int (length dictionary)) = Inl IndexError \<and>
     dictionary_indexing experimental shape dictionary metric keep_n n =
       ([], Inl (if keep_n < 0 then ValueError else IndexError))"
  by (simp add: py_floordiv_def div_pos_pos_trivial chunk_ends_no_iterations extend_last_end_def
      dictionary_indexing_too_large)

theorem too_few_rows_raises_witness:
  "0 < int (length [[1, 0 :: real]]) \<and> int (length [[1, 0 :: real]]) < 2 \<and>
   py_floordiv (int (length [[1, 0 :: real]])) 2 = Inr 0 \<and>
   dictionary_indexing [[1, 0]] [1] [[1, 0]] (pairwise_metric 1 dot) 1 2 = ([], Inl IndexError)"
  using too_few_rows_raises [of "[[1, 0]]" 2 "[[1, 0]]" "[1]" "pairwise_metric 1 dot" 1]
  by simp

text \<open>
  The claim as stated fails for a negative \<open>keep_n\<close>: the exception is \<open>ValueError\<close>.
\<close>

theorem too_few_rows_counterexample:
  "0 < int (length [[1, 0 :: real]]) \<and> int (length [[1, 0 :: real]]) < 2 \<and>
   snd (dictionary_indexing [[1, 0]] [1] [[1, 0]] (pairwise_metric 1 dot) (- 1) 2) =
     Inl ValueError \<and>
   snd (dictionary_indexing [[1, 0]] [1] [[1, 0]] (pairwise_metric 1 dot) (- 1) 2) \<noteq>
     Inl IndexError"
  by (simp add: dictionary_indexing_too_large)

subsection \<open>Order of the rows after a merge\<close>

text \<open>
  Every row of scores that leaves the merge is sorted by the key the merge sorts
  on, \<open>-sign * score\<close>. Hence every row the multi-chunk path returns is sorted best
  first, for either sign.
\<close>

lemma set_argsort_pairs:
  "p \<in> set (sort_key fst (zip keys [0..<length keys])) \<Longrightarrow>
     snd p < length keys \<and> keys ! snd p = fst p"
  by (auto simp: set_zip)

lemma keys_of_argsort:
  "map (\<lambda>i. keys ! i) (argsort keys) = map fst (sort_key fst (zip keys [0..<length keys]))"
  unfolding argsort_def map_map
  by (rule map_cong [OF refl]) (use set_argsort_pairs in \<open>auto simp: comp_def\<close>)

lemma sorted_keys_of_argsort: "sorted (map (\<lambda>i. keys ! i) (argsort keys))"
  unfolding keys_of_argsort by (rule sorted_sort_key)

lemma argsort_in_range: "i \<in> set (argsort keys) \<Longrightarrow> i < length keys"
  unfolding argsort_def using set_argsort_pairs [of _ keys] by auto

lemma length_argsort: "length (argsort keys) = length keys"
  by (simp add: argsort_def)

lemma set_argsort: "set (argsort keys) = {..<length keys}"
proof -
  have m: "map snd (zip keys [0..<length keys]) = [0..<length keys]"
    by (rule map_snd_zip) simp
  have "set (argsort keys) = snd ` set (zip keys [0..<length keys])"
    by (simp add: argsort_def)
  also have "\<dots> = set (map snd (zip keys [0..<length keys]))"
    by (simp only: set_map)
  also have "\<dots> = {..<length keys}"
    unfolding m by (simp add: lessThan_atLeast0)
  finally show ?thesis .
qed

lemma distinct_argsort: "distinct (argsort keys)"
proof -
  have "distinct (zip keys [0..<length keys])"
    by (rule distinct_zipI2) simp
  moreover have "inj_on snd (set (zip keys [0..<length keys]))"
    by (auto simp: inj_on_def set_zip)
  ultimately show ?thesis
    by (simp add: argsort_def distinct_map)
qed

text \<open>
  On a row without equal keys the order of the positions is determined: every list
  of all the positions whose keys ascend is the list \<open>argsort\<close> returns. A statement
  about such a row holds for every order the library may give to equal keys.
\<close>

lemma argsort_unique:
  assumes d: "distinct keys"
    and p: "distinct p" "set p = {..<length keys}"
    and s: "sorted (map (\<lambda>i. keys ! i) p)"
  shows "p = argsort keys"
proof -
  have inj: "inj_on (\<lambda>i. keys ! i) {..<length keys}"
    using d by (auto simp: inj_on_def nth_eq_iff_index_eq)
  have img: "(\<lambda>i. keys ! i) ` {..<length keys} = set keys"
    by (auto simp: set_conv_nth)
  have "map (\<lambda>i. keys ! i) p = map (\<lambda>i. keys ! i) (argsort keys)"
  proof (rule sorted_distinct_set_unique)
    show "sorted (map (\<lambda>i. keys ! i) p)" by (rule s)
    show "sorted (map (\<lambda>i. keys ! i) (argsort keys))" by (rule sorted_keys_of_argsort)
    show "distinct (map (\<lambda>i. keys ! i) p)"
      using p inj by (simp add: distinct_map)
    show "distinct (map (\<lambda>i. keys ! i) (argsort keys))"
      using inj by (simp add: distinct_map distinct_argsort set_argsort)
    show "set (map (\<lambda>i. keys ! i) p) = set (map (\<lambda>i. keys ! i) (argsort keys))"
      using p(2) by (simp add: set_argsort)
  qed
  moreover have "inj_on (\<lambda>i. keys ! i) (set p \<union> set (argsort keys))"
    using inj p(2) by (simp add: set_argsort)
  ultimately show ?thesis
    using inj_on_map_eq_map [of "\<lambda>i. keys ! i" p "argsort keys"] by blast
qed

lemma sorted_take_map: "sorted (map f xs) \<Longrightarrow> sorted (map f (take k xs))"
  by (simp add: take_map [symmetric] sorted_wrt_take)

lemma sorted_best_of_argsort:
  "sorted (map (\<lambda>s. c * s) (take_along_axis row (take k (argsort (map (\<lambda>s. c * s) row)))))"
  for c :: real
proof -
  let ?keys = "map (\<lambda>s. c * s) row"
  have "map (\<lambda>s. c * s) (take_along_axis row (take k (argsort ?keys)))
      = map (\<lambda>i. ?keys ! i) (take k (argsort ?keys))"
    unfolding take_along_axis_def map_map
  proof (rule map_cong [OF refl])
    fix i
    assume "i \<in> set (take k (argsort ?keys))"
    then have "i \<in> set (argsort ?keys)" by (rule in_set_takeD)
    then have "i < length row" using argsort_in_range [of i ?keys] by simp
    then show "((\<lambda>s. c * s) \<circ> (!) row) i = ?keys ! i" by simp
  qed
  also have "sorted \<dots>"
    by (rule sorted_take_map) (rule sorted_keys_of_argsort)
  finally show ?thesis .
qed

lemma sorted_best_first_iff:
  assumes "s = 1 \<or> s = - 1"
  shows "sorted_best_first s row \<longleftrightarrow> sorted (map (\<lambda>x. real_of_int (- s) * x) row)"
proof -
  have "sorted (map uminus row) \<longleftrightarrow> sorted (rev row)" for row :: "real list"
    by (induction row) (auto simp: sorted_append)
  with assms show ?thesis
    by (auto simp: sorted_best_first_def)
qed


lemma merge_chunk_sorted:
  assumes "merge_chunk negative_sign keep_n start running chunk = Inr (idx, sc)"
    and "row \<in> set sc"
  shows "sorted (map (\<lambda>x. real_of_int negative_sign * x) row)"
proof -
  obtain si sco where running: "running = (si, sco)" by (cases running)
  obtain si_i sco_i where chunk: "chunk = (si_i, sco_i)" by (cases chunk)
  from assms(1) obtain all_scores where
    sc: "sc = map2 take_along_axis all_scores
           (map (\<lambda>row. take (nat keep_n)
                  (argsort (map (\<lambda>s. real_of_int negative_sign * s) row))) all_scores)"
    by (auto simp: merge_chunk_def running chunk Let_def split: sum.splits)
  from assms(2) obtain r where
    "row = take_along_axis r
       (take (nat keep_n) (argsort (map (\<lambda>s. real_of_int negative_sign * s) r)))"
    unfolding sc by (auto simp: zip_map2 set_zip)
  then show ?thesis by (simp add: sorted_best_of_argsort)
qed

lemma chunk_loop_sorted:
  assumes "snd (chunk_loop metric experimental dictionary keep_n bounds running) = Inr (idx, sc)"
    and "\<forall>row \<in> set (snd running). sorted (map (\<lambda>x. real_of_int (- sign metric) * x) row)"
    and "row \<in> set sc"
  shows "sorted (map (\<lambda>x. real_of_int (- sign metric) * x) row)"
  using assms
proof (induction bounds arbitrary: running)
  case Nil
  then show ?case by auto
next
  case (Cons b bounds)
  obtain start "end" where b: "b = (start, end)" by (cases b)
  from Cons.prems(1) obtain chunk running' where
    m: "merge_chunk (- sign metric) keep_n start running chunk = Inr running'"
    and l: "snd (chunk_loop metric experimental dictionary keep_n bounds running') = Inr (idx, sc)"
    unfolding b by (auto simp: Let_def split: sum.splits prod.splits)
  have "\<forall>row \<in> set (snd running'). sorted (map (\<lambda>x. real_of_int (- sign metric) * x) row)"
    using merge_chunk_sorted [of "- sign metric" keep_n start running chunk "fst running'" "snd running'"] m
    by auto
  from Cons.IH [OF l this Cons.prems(3)] show ?case .
qed

lemma multi_chunk_path_sorted:
  assumes "sign metric = 1 \<or> sign metric = - 1"
    and "snd (multi_chunk_path experimental n_experimental dictionary metric keep_n n n_iterations)
           = Inr (idx, sc)"
    and "row \<in> set sc"
  shows "sorted_best_first (sign metric) row"
proof -
  from assms(2) obtain bounds where
    l: "snd (chunk_loop metric experimental dictionary keep_n bounds
          (replicate n_experimental (replicate (nat keep_n) 0),
           replicate n_experimental (replicate (nat keep_n) (real_of_int (sign metric)))))
        = Inr (idx, sc)"
    by (auto simp: multi_chunk_path_def zeros_def full_def split: if_splits sum.splits)
  have "sorted (map (\<lambda>x. real_of_int (- sign metric) * x) row)"
    by (rule chunk_loop_sorted [OF l _ assms(3)]) (auto simp: map_replicate_const)
  with assms(1) show ?thesis by (simp add: sorted_best_first_iff)
qed

subsection \<open>The initial content of the running buffers survives every merge\<close>

text \<open>
  The running scores start at \<open>sign\<close>, whose sort key is \<open>-sign * sign = -1\<close>. A real
  score \<open>x\<close> has the key \<open>-sign * x\<close>, which is above \<open>-1\<close> whenever \<open>sign * x < 1\<close>. For
  a metric all of whose scores satisfy \<open>sign * x < 1\<close>, the first \<open>keep_n\<close> positions
  of the sorted candidates are therefore the \<open>keep_n\<close> initial entries, in every row and
  in every iteration, and a run of the multi-chunk path that ends without an
  exception returns the initial buffers.
\<close>


lemma sort_key_constant_prefix:
  assumes "\<forall>a \<in> set A. f a = c" and "\<forall>b \<in> set B. c \<le> f b"
  shows "sort_key f (A @ B) = A @ sort_key f B"
  using assms(1)
proof (induction A)
  case Nil
  then show ?case by simp
next
  case (Cons a A)
  then have "sort_key f (A @ B) = A @ sort_key f B" by simp
  moreover have "\<forall>x \<in> set (A @ sort_key f B). f a \<le> f x"
    using Cons.prems assms(2) by auto
  ultimately show ?case
    by (simp add: insort_is_Cons)
qed

lemma argsort_constant_prefix:
  assumes "\<forall>y \<in> set ys. c \<le> y"
  shows "take k (argsort (replicate k c @ ys)) = [0..<k]"
proof -
  let ?A = "zip (replicate k c) [0..<k]"
  let ?B = "zip ys [k..<k + length ys]"
  have z: "zip (replicate k c @ ys) [0..<length (replicate k c @ ys)] = ?A @ ?B"
    by (simp add: upt_add_eq_append [of 0 k "length ys", simplified])
  have A: "\<forall>a \<in> set ?A. fst a = c"
    by (auto simp: set_zip)
  have B: "\<forall>b \<in> set ?B. c \<le> fst b"
    using assms by (auto simp: set_zip)
  have "argsort (replicate k c @ ys) = map snd ?A @ map snd (sort_key fst ?B)"
    unfolding argsort_def z sort_key_constant_prefix [OF A B] by simp
  then show ?thesis by simp
qed

lemma take_along_axis_prefix:
  "take_along_axis (replicate k c @ ys) [0..<k] = replicate k c"
  by (auto simp: take_along_axis_def nth_append intro!: nth_equalityI)

lemma map2_replicate_left:
  "length B = n \<Longrightarrow> map2 f (replicate n u) B = map (f u) B"
  by (simp add: zip_replicate1 comp_def)

lemma map2_replicate_right:
  "length A = n \<Longrightarrow> map2 f A (replicate n u) = map (\<lambda>a. f a u) A"
  by (simp add: zip_replicate2 comp_def)

lemma hstack_Inr: "hstack a b = Inr c \<Longrightarrow> length a = length b \<and> c = map2 (@) a b"
  by (auto simp: hstack_def split: if_splits)

lemma merge_chunk_Inr:
  assumes "merge_chunk negative_sign keep_n start (si, sco) (si_i, sc_i) = Inr running'"
  shows "\<exists>all_scores all_idx.
    hstack sco sc_i = Inr all_scores \<and>
    hstack si (map (map (\<lambda>i. int i + start)) si_i) = Inr all_idx \<and>
    running' =
      (map2 take_along_axis all_idx
         (map (\<lambda>row. take (nat keep_n) (argsort (map (\<lambda>x. real_of_int negative_sign * x) row)))
            all_scores),
       map2 take_along_axis all_scores
         (map (\<lambda>row. take (nat keep_n) (argsort (map (\<lambda>x. real_of_int negative_sign * x) row)))
            all_scores))"
  using assms by (auto simp: merge_chunk_def Let_def split: sum.splits)

lemma merge_chunk_keeps_initial:
  assumes s: "s = 1 \<or> s = - 1"
    and m: "merge_chunk (- s) keep_n start
              (replicate n (replicate (nat keep_n) 0),
               replicate n (replicate (nat keep_n) (real_of_int s))) chunk
            = Inr running'"
    and worse: "\<forall>row \<in> set (snd chunk). \<forall>x \<in> set row. real_of_int s * x < 1"
  shows "running' = (replicate n (replicate (nat keep_n) 0),
                     replicate n (replicate (nat keep_n) (real_of_int s)))"
proof -
  obtain si_i sc_i where chunk: "chunk = (si_i, sc_i)" by (cases chunk)
  define K where "K = nat keep_n"
  define c where "c = real_of_int (- s)"
  define si where "si = map (map (\<lambda>i. int i + start)) si_i"
  from merge_chunk_Inr [OF m [unfolded chunk]] obtain all_scores all_idx where
    hs: "hstack (replicate n (replicate K (real_of_int s))) sc_i = Inr all_scores"
    and hi: "hstack (replicate n (replicate K 0)) si = Inr all_idx"
    and r: "running' =
      (map2 take_along_axis all_idx
         (map (\<lambda>row. take K (argsort (map (\<lambda>x. c * x) row))) all_scores),
       map2 take_along_axis all_scores
         (map (\<lambda>row. take K (argsort (map (\<lambda>x. c * x) row))) all_scores))"
    unfolding K_def c_def si_def by blast
  from hstack_Inr [OF hs] have ls: "length sc_i = n"
    and as: "all_scores = map (\<lambda>b. replicate K (real_of_int s) @ b) sc_i"
    by (simp_all add: map2_replicate_left)
  from hstack_Inr [OF hi] have li: "length si = n"
    and ai: "all_idx = map (\<lambda>b. replicate K 0 @ b) si"
    by (simp_all add: map2_replicate_left)
  have ss: "c * real_of_int s = - 1" using s by (auto simp: c_def)
  have best1: "take K (argsort (map (\<lambda>x. c * x) (replicate K (real_of_int s) @ b))) = [0..<K]"
    if "b \<in> set sc_i" for b
  proof -
    have "\<forall>y \<in> set (map (\<lambda>x. c * x) b). - 1 \<le> y"
    proof
      fix y assume "y \<in> set (map (\<lambda>x. c * x) b)"
      then obtain x where x: "x \<in> set b" and y: "y = c * x" by auto
      from worse that x have "real_of_int s * x < 1" by (auto simp: chunk)
      with y show "- 1 \<le> y" by (simp add: c_def)
    qed
    from argsort_constant_prefix [OF this, of K] show ?thesis
      by (simp add: ss)
  qed
  have best: "map (\<lambda>row. take K (argsort (map (\<lambda>x. c * x) row))) all_scores = replicate n [0..<K]"
  proof -
    have "map (\<lambda>row. take K (argsort (map (\<lambda>x. c * x) row))) all_scores
        = map (\<lambda>b. [0..<K]) sc_i"
      unfolding as map_map comp_def by (rule map_cong [OF refl]) (rule best1)
    then show ?thesis using ls by (simp add: map_replicate_const)
  qed
  have "map2 take_along_axis all_scores (replicate n [0..<K]) = replicate n (replicate K (real_of_int s))"
    using ls by (simp add: as map2_replicate_right take_along_axis_prefix comp_def map_replicate_const)
  moreover have "map2 take_along_axis all_idx (replicate n [0..<K]) = replicate n (replicate K 0)"
    using li by (simp add: ai map2_replicate_right take_along_axis_prefix comp_def map_replicate_const)
  ultimately have "running' =
      (replicate n (replicate K 0), replicate n (replicate K (real_of_int s)))"
    unfolding r best by simp
  then show ?thesis by (simp add: K_def)
qed


lemma reshape_cols_Inr: "reshape_cols k rows = Inr rows' \<Longrightarrow> 0 < k \<and> rows' = rows"
  by (auto simp: reshape_cols_def split: if_splits)

lemma reshape_cols_elem:
  assumes "reshape_cols k rows = Inr rows'" and "row' \<in> set rows'" and "x \<in> set row'"
  shows "\<exists>row \<in> set rows. x \<in> set row"
  using assms reshape_cols_Inr [OF assms(1)] by auto

lemma argtopk_in_range: "i \<in> set (argtopk k row) \<Longrightarrow> i < length row"
  by (auto simp: argtopk_def split: if_splits dest!: in_set_takeD dest: argsort_in_range)

lemma topk_elem: "x \<in> set (topk k row) \<Longrightarrow> x \<in> set row"
  by (auto simp: topk_def take_along_axis_def dest: argtopk_in_range)

lemma match_chunk_Inr:
  assumes "match_chunk experimental simulated keep_n metric = Inr (si, sc)"
  shows "reshape_cols keep_n
           (map (argtopk keep_n) (match metric experimental (prepare_dictionary metric simulated)))
         = Inr si \<and>
         reshape_cols keep_n
           (map (topk keep_n) (match metric experimental (prepare_dictionary metric simulated)))
         = Inr sc"
  using assms by (auto simp: match_chunk_def Let_def split: sum.splits)

lemma match_chunk_score_elem:
  assumes "match_chunk experimental simulated keep_n metric = Inr (si, sc)"
    and "row' \<in> set sc" and "x \<in> set row'"
  shows "\<exists>row \<in> set (match metric experimental (prepare_dictionary metric simulated)). x \<in> set row"
proof -
  from match_chunk_Inr [OF assms(1)] reshape_cols_elem [OF _ assms(2,3)]
  obtain r where "r \<in> set (map (topk keep_n)
       (match metric experimental (prepare_dictionary metric simulated)))" and "x \<in> set r"
    by blast
  then show ?thesis by (auto dest: topk_elem)
qed

lemma chunk_loop_keeps_initial:
  assumes s: "sign metric = 1 \<or> sign metric = - 1"
    and worse: "\<forall>simulated. \<forall>row \<in> set (match metric experimental (prepare_dictionary metric simulated)).
        \<forall>x \<in> set row. real_of_int (sign metric) * x < 1"
    and l: "snd (chunk_loop metric experimental dictionary keep_n bounds
          (replicate n (replicate (nat keep_n) 0),
           replicate n (replicate (nat keep_n) (real_of_int (sign metric))))) = Inr running'"
  shows "running' = (replicate n (replicate (nat keep_n) 0),
                     replicate n (replicate (nat keep_n) (real_of_int (sign metric))))"
  using l
proof (induction bounds)
  case Nil
  then show ?case by simp
next
  case (Cons b bounds)
  let ?init = "(replicate n (replicate (nat keep_n) 0),
                replicate n (replicate (nat keep_n) (real_of_int (sign metric))))"
  obtain start "end" where b: "b = (start, end)" by (cases b)
  from Cons.prems obtain chunk r where
    mc: "match_chunk experimental (slice_rows dictionary start end) (min keep_n (end - start)) metric
           = Inr chunk"
    and m: "merge_chunk (- sign metric) keep_n start ?init chunk = Inr r"
    and l': "snd (chunk_loop metric experimental dictionary keep_n bounds r) = Inr running'"
    unfolding b by (auto simp: Let_def split: sum.splits prod.splits)
  have "\<forall>row \<in> set (snd chunk). \<forall>x \<in> set row. real_of_int (sign metric) * x < 1"
    using match_chunk_score_elem [of experimental "slice_rows dictionary start end"
        "min keep_n (end - start)" metric "fst chunk" "snd chunk"] mc worse
    by (metis prod.collapse)
  from merge_chunk_keeps_initial [OF s m this] have "r = ?init" .
  with l' Cons.IH show ?case by simp
qed

lemma multi_chunk_path_keeps_initial:
  assumes "sign metric = 1 \<or> sign metric = - 1"
    and "\<forall>simulated. \<forall>row \<in> set (match metric experimental (prepare_dictionary metric simulated)).
        \<forall>x \<in> set row. real_of_int (sign metric) * x < 1"
    and "snd (multi_chunk_path experimental n_experimental dictionary metric keep_n n n_iterations)
           = Inr running'"
  shows "running' = (replicate n_experimental (replicate (nat keep_n) 0),
           replicate n_experimental (replicate (nat keep_n) (real_of_int (sign metric))))"
proof -
  from assms(3) obtain bounds where
    "snd (chunk_loop metric experimental dictionary keep_n bounds
          (replicate n_experimental (replicate (nat keep_n) 0),
           replicate n_experimental (replicate (nat keep_n) (real_of_int (sign metric)))))
        = Inr running'"
    by (auto simp: multi_chunk_path_def zeros_def full_def split: if_splits sum.splits)
  from chunk_loop_keeps_initial [OF assms(1,2) this] show ?thesis .
qed

subsection \<open>Shapes\<close>

text \<open>
  The chunk matcher returns indices and scores of the same shape.
\<close>

lemma length_topk: "length (topk k row) = length (argtopk k row)"
  by (simp add: topk_def take_along_axis_def)

lemma match_chunk_same_shape:
  assumes "match_chunk experimental simulated keep_n metric = Inr (si, sc)"
  shows "map length si = map length sc"
proof -
  from match_chunk_Inr [OF assms] have
    "si = map (argtopk keep_n) (match metric experimental (prepare_dictionary metric simulated))"
    and "sc = map (topk keep_n) (match metric experimental (prepare_dictionary metric simulated))"
    by (auto dest: reshape_cols_Inr)
  then show ?thesis by (simp add: length_topk comp_def)
qed

subsection \<open>The single pass and the chunks of a completed run\<close>

text \<open>
  On the single pass the rows come from \<open>topk\<close> with a positive \<open>k\<close> and are sorted
  largest first, whatever the sign of the metric: best first for sign \<open>+1\<close> only.
  A run of the multi-chunk path that ends without an exception has matched exactly
  the chunks of \<open>chunk_bounds\<close>, in order.
\<close>

lemma length_argtopk: "0 \<le> k \<Longrightarrow> length (argtopk k row) = min (nat k) (length row)"
  by (simp add: argtopk_def length_argsort)

lemma topk_eq:
  assumes "0 \<le> k"
  shows "topk k row = take (nat k) (rev (map (\<lambda>i. row ! i) (argsort row)))"
  using assms by (simp add: topk_def argtopk_def take_along_axis_def take_map rev_map)

lemma sorted_topk: "0 \<le> k \<Longrightarrow> sorted_best_first 1 (topk k row)"
proof -
  assume k: "0 \<le> k"
  let ?asc = "map (\<lambda>i. row ! i) (argsort row)"
  have "sorted ?asc" by (rule sorted_keys_of_argsort)
  then have "sorted (drop (length ?asc - nat k) ?asc)"
    by (rule sorted_wrt_drop)
  then have "sorted (rev (take (nat k) (rev ?asc)))"
    by (simp add: rev_take)
  then show ?thesis
    using k by (simp add: sorted_best_first_def topk_eq)
qed

lemma single_pass_path_sorted:
  assumes r: "snd (single_pass_path experimental dictionary metric keep_n) = Inr (idx, sc)"
    and row: "row \<in> set sc"
  shows "sorted_best_first 1 row"
proof -
  let ?S = "match metric experimental (prepare_dictionary metric dictionary)"
  from r obtain si where "match_chunk experimental dictionary keep_n metric = Inr (si, sc)"
    by (auto simp: single_pass_path_def split: sum.splits)
  from match_chunk_Inr [OF this] have "0 < keep_n" and "sc = map (topk keep_n) ?S"
    by (auto dest: reshape_cols_Inr)
  with row obtain r0 where "row = topk keep_n r0" by auto
  with \<open>0 < keep_n\<close> show ?thesis by (simp add: sorted_topk)
qed

lemma chunk_loop_matched:
  "snd (chunk_loop metric experimental dictionary keep_n bounds running) = Inr r \<Longrightarrow>
   fst (chunk_loop metric experimental dictionary keep_n bounds running) = bounds"
proof (induction bounds arbitrary: running)
  case Nil
  then show ?case by simp
next
  case (Cons b bounds)
  obtain start "end" where b: "b = (start, end)" by (cases b)
  from Cons.prems obtain chunk running' where
    mc: "match_chunk experimental (slice_rows dictionary start end) (min keep_n (end - start)) metric
           = Inr chunk"
    and m: "merge_chunk (- sign metric) keep_n start running chunk = Inr running'"
    and l: "snd (chunk_loop metric experimental dictionary keep_n bounds running') = Inr r"
    unfolding b by (auto simp: Let_def split: sum.splits prod.splits)
  from Cons.IH [OF l] mc m show ?case
    unfolding b by (simp add: Let_def split_def)
qed

lemma multi_chunk_path_matched:
  assumes "snd (multi_chunk_path experimental n_experimental dictionary metric keep_n n n_iterations)
           = Inr r"
  shows "chunk_bounds n n_iterations (int (length dictionary)) =
    Inr (fst (multi_chunk_path experimental n_experimental dictionary metric keep_n n n_iterations))"
  using assms
  by (auto simp: multi_chunk_path_def split: sum.splits dest: chunk_loop_matched)

subsection \<open>Positions read by the merge are in range\<close>

text \<open>
  The running indices and scores keep the same shape through the loop, so every
  position that \<open>argsort\<close> computes from a row of the stacked scores is also a valid
  position of the corresponding row of the stacked indices: \<open>take_along_axis\<close> never
  reads out of range.
\<close>

lemma shape_hstack:
  assumes "hstack a b = Inr c"
  shows "map length c = map2 (+) (map length a) (map length b)"
  using hstack_Inr [OF assms] by (simp add: zip_map_map split_def)

lemma shape_take_along_axis:
  "map length (map2 take_along_axis a best) = map length (take (length a) best)"
  by (rule nth_equalityI) (simp_all add: take_along_axis_def)

lemma merge_chunk_positions_in_range:
  assumes hs: "hstack sco sc_i = Inr all_scores"
    and hi: "hstack si si_i = Inr all_idx"
    and running: "map length si = map length sco"
    and chunk: "map length si_i = map length sc_i"
    and j: "j < length all_scores"
    and i: "i \<in> set (take k (argsort (map f (all_scores ! j))))"
  shows "i < length (all_scores ! j) \<and> i < length (all_idx ! j)"
proof -
  have "map length all_idx = map length all_scores"
    using shape_hstack [OF hs] shape_hstack [OF hi] running chunk by simp
  then have "length (all_idx ! j) = length (all_scores ! j)"
    using j by (metis length_map nth_map)
  moreover have "i < length (all_scores ! j)"
    using argsort_in_range [of i "map f (all_scores ! j)"] in_set_takeD [OF i] by simp
  ultimately show ?thesis by simp
qed

lemma merge_chunk_same_shape:
  assumes m: "merge_chunk negative_sign keep_n start (si, sco) (si_i, sc_i) = Inr (idx, sc)"
    and running: "map length si = map length sco"
    and chunk: "map length si_i = map length sc_i"
  shows "map length idx = map length sc"
proof -
  from merge_chunk_Inr [OF m] obtain all_scores all_idx best where
    hs: "hstack sco sc_i = Inr all_scores"
    and hi: "hstack si (map (map (\<lambda>i. int i + start)) si_i) = Inr all_idx"
    and idx: "idx = map2 take_along_axis all_idx best"
    and sc: "sc = map2 take_along_axis all_scores best"
    by auto
  have "map length all_idx = map length all_scores"
    using shape_hstack [OF hs] shape_hstack [OF hi] running chunk by (simp add: comp_def)
  then have "length all_idx = length all_scores"
    by (metis length_map)
  then show ?thesis
    unfolding idx sc shape_take_along_axis by simp
qed

lemma chunk_loop_same_shape:
  assumes "snd (chunk_loop metric experimental dictionary keep_n bounds running) = Inr (idx, sc)"
    and "map length (fst running) = map length (snd running)"
  shows "map length idx = map length sc"
  using assms
proof (induction bounds arbitrary: running)
  case Nil
  then show ?case by auto
next
  case (Cons b bounds)
  obtain start "end" where b: "b = (start, end)" by (cases b)
  from Cons.prems(1) obtain chunk running' where
    mc: "match_chunk experimental (slice_rows dictionary start end) (min keep_n (end - start)) metric
           = Inr chunk"
    and m: "merge_chunk (- sign metric) keep_n start running chunk = Inr running'"
    and l: "snd (chunk_loop metric experimental dictionary keep_n bounds running') = Inr (idx, sc)"
    unfolding b by (auto simp: Let_def split: sum.splits prod.splits)
  have c: "map length (fst chunk) = map length (snd chunk)"
    using match_chunk_same_shape [of _ _ _ _ "fst chunk" "snd chunk"] mc by simp
  have "map length (fst running') = map length (snd running')"
    using merge_chunk_same_shape [of _ _ _ "fst running" "snd running" "fst chunk" "snd chunk"
        "fst running'" "snd running'"] m Cons.prems(2) c
    by simp
  from Cons.IH [OF l this] show ?case .
qed

subsection \<open>The running buffers and the merge\<close>

text \<open>
  The examples below use one experimental pattern \<open>[1, 0]\<close> and the dictionary
  \<open>[[0.6, 0.8], [0.8, 0.6]]\<close>, all of unit norm. Under the dot product (sign \<open>+1\<close>)
  the similarities are \<open>0.6\<close> and \<open>0.8\<close>, so the best match is the dictionary row 1.
  Since the similarities differ, no result below depends on how equal scores are
  ordered.
\<close>

text \<open>
  Claim C1 fails on the code. With one dictionary row per iteration and
  \<open>keep_n = 1\<close> the multi-chunk path returns the score \<open>1\<close> and the index \<open>0\<close>, which
  are the initial content of the running buffers; a single pass over the whole
  dictionary returns the score \<open>0.8\<close> and the index \<open>1\<close>.
\<close>

theorem chunked_differs_from_full_pass:
  "dictionary_indexing [[1, 0]] [1] [[3 / 5, 4 / 5], [4 / 5, 3 / 5]] (pairwise_metric 1 dot) 1 1 =
     ([(0, 1), (1, 2)], Inr \<lparr>prop_simulation_indices = [[0]], prop_scores = [[1]]\<rparr>) \<and>
   match_chunk [[1, 0]] [[3 / 5, 4 / 5], [4 / 5, 3 / 5]] 1 (pairwise_metric 1 dot) =
     Inr ([[1]], [[4 / 5]])"
  by code_simp

text \<open>
  Claim C2 fails on the code. The running scores start at the sign of the metric,
  here \<open>1\<close>. The chunk \<open>[1,2)\<close> yields the real match of score \<open>0.8\<close>, and the merge of
  the running buffers with it keeps the initial entry and drops the real match.
\<close>

theorem sentinel_displaces_real_match:
  "full 1 1 (real_of_int (sign (pairwise_metric 1 dot))) = Inr [[1]] \<and>
   match_chunk [[1, 0]] (slice_rows [[3 / 5, 4 / 5], [4 / 5, 3 / 5]] 1 2) 1 (pairwise_metric 1 dot) =
     Inr ([[0]], [[4 / 5]]) \<and>
   merge_chunk (- sign (pairwise_metric 1 dot)) 1 1 ([[0]], [[1]]) ([[0]], [[4 / 5]]) =
     Inr ([[0]], [[1]])"
  by code_simp

text \<open>
  Claim C4 fails on the code in its second half. With a dictionary of two rows and
  \<open>n_per_iteration = 2\<close> the driver takes the single pass and returns the score \<open>0.8\<close>
  and the index \<open>1\<close>; the multi-chunk path with one iteration over the same data
  returns the initial content of the running buffers.
\<close>

theorem fast_path_differs_from_one_iteration:
  "dictionary_indexing [[1, 0]] [1] [[3 / 5, 4 / 5], [4 / 5, 3 / 5]] (pairwise_metric 1 dot) 1 2 =
     ([(0, 2)], Inr \<lparr>prop_simulation_indices = [[1]], prop_scores = [[4 / 5]]\<rparr>) \<and>
   multi_chunk_path [[1, 0]] 1 [[3 / 5, 4 / 5], [4 / 5, 3 / 5]] (pairwise_metric 1 dot) 1 2 1 =
     ([(0, 2)], Inr ([[0]], [[1]]))"
  by code_simp

text \<open>
  Claim C5 fails on the code in its last part. With \<open>keep_n = 5\<close> on a dictionary of
  two rows, one row per iteration, \<open>keep_n\<close> is clamped to 2, and the returned row of
  indices is \<open>[0, 0]\<close> with the scores \<open>[1, 1]\<close>: both entries are the initial content
  of the running buffers, and the dictionary row 1 is absent.
\<close>

theorem clamped_keep_n_returns_sentinels:
  "dictionary_indexing [[1, 0]] [1] [[3 / 5, 4 / 5], [4 / 5, 3 / 5]] (pairwise_metric 1 dot) 5 1 =
     ([(0, 1), (1, 2)], Inr \<lparr>prop_simulation_indices = [[0, 0]], prop_scores = [[1, 1]]\<rparr>)"
  by code_simp

text \<open>
  Claim C6 fails on the code for a metric of sign \<open>-1\<close> on the single pass. Under
  the squared distance the scores of the two dictionary rows are \<open>0.8\<close> and \<open>0.4\<close>; the
  single pass returns them largest first, which for this sign is worst first.
\<close>

theorem fast_path_ignores_sign:
  "dictionary_indexing [[1, 0]] [1] [[3 / 5, 4 / 5], [4 / 5, 3 / 5]] (pairwise_metric (- 1) sq_dist) 2 2 =
     ([(0, 2)], Inr \<lparr>prop_simulation_indices = [[0, 1]], prop_scores = [[4 / 5, 2 / 5]]\<rparr>) \<and>
   \<not> sorted_best_first (- 1) [4 / 5, 2 / 5]"
  by code_simp

end
